theory Spec2Isabelle
  imports Complex_Main
begin

section \<open>Behaviour catalogue, goal levels, phases, performance levels\<close>

text \<open>
  Modelled from the spec: the behaviour constants \<open>config.A_...\<close> / \<open>Policy.A_...\<close>
  live in \<open>CoachingBehaviourTree/config.py\<close> and \<open>Policy/policy.py\<close>, which are not
  part of the sources at hand. The spec describes a behaviour as an identifier drawn from a
  closed enumeration of atomic behaviours and their pairwise combined forms. The atomic
  behaviours are the ones whose names occur in the two source files; a combined behaviour
  \<open>A_X_Y\<close> is \<open>Combined X Y\<close>. The only property of the constants that the model
  relies on is that behaviours with different names are different identifiers.
\<close>

datatype category =
    START | END | SILENCE | PREINSTRUCTION
  | CONCURRENTINSTRUCTIONPOSITIVE | CONCURRENTINSTRUCTIONNEGATIVE
  | POSTINSTRUCTIONPOSITIVE | POSTINSTRUCTIONNEGATIVE
  | MANUALMANIPULATION | QUESTIONING | POSITIVEMODELING | NEGATIVEMODELING
  | FIRSTNAME | HUSTLE | PRAISE | SCOLD | CONSOLE

datatype behaviour = Atomic category | Combined category category

abbreviation A_START :: behaviour where "A_START \<equiv> Atomic START"
abbreviation A_END :: behaviour where "A_END \<equiv> Atomic END"
abbreviation A_SILENCE :: behaviour where "A_SILENCE \<equiv> Atomic SILENCE"
abbreviation A_PREINSTRUCTION :: behaviour where "A_PREINSTRUCTION \<equiv> Atomic PREINSTRUCTION"
abbreviation A_CONCURRENTINSTRUCTIONPOSITIVE :: behaviour where
  "A_CONCURRENTINSTRUCTIONPOSITIVE \<equiv> Atomic CONCURRENTINSTRUCTIONPOSITIVE"
abbreviation A_CONCURRENTINSTRUCTIONNEGATIVE :: behaviour where
  "A_CONCURRENTINSTRUCTIONNEGATIVE \<equiv> Atomic CONCURRENTINSTRUCTIONNEGATIVE"
abbreviation A_POSTINSTRUCTIONPOSITIVE :: behaviour where
  "A_POSTINSTRUCTIONPOSITIVE \<equiv> Atomic POSTINSTRUCTIONPOSITIVE"
abbreviation A_POSTINSTRUCTIONNEGATIVE :: behaviour where
  "A_POSTINSTRUCTIONNEGATIVE \<equiv> Atomic POSTINSTRUCTIONNEGATIVE"
abbreviation A_QUESTIONING :: behaviour where "A_QUESTIONING \<equiv> Atomic QUESTIONING"
abbreviation A_POSITIVEMODELING :: behaviour where "A_POSITIVEMODELING \<equiv> Atomic POSITIVEMODELING"
abbreviation A_NEGATIVEMODELING :: behaviour where "A_NEGATIVEMODELING \<equiv> Atomic NEGATIVEMODELING"
abbreviation A_FIRSTNAME :: behaviour where "A_FIRSTNAME \<equiv> Atomic FIRSTNAME"
abbreviation A_HUSTLE :: behaviour where "A_HUSTLE \<equiv> Atomic HUSTLE"
abbreviation A_PRAISE :: behaviour where "A_PRAISE \<equiv> Atomic PRAISE"
abbreviation A_SCOLD :: behaviour where "A_SCOLD \<equiv> Atomic SCOLD"
abbreviation A_CONSOLE :: behaviour where "A_CONSOLE \<equiv> Atomic CONSOLE"

abbreviation A_PREINSTRUCTION_FIRSTNAME :: behaviour where
  "A_PREINSTRUCTION_FIRSTNAME \<equiv> Combined PREINSTRUCTION FIRSTNAME"
abbreviation A_PREINSTRUCTION_QUESTIONING :: behaviour where
  "A_PREINSTRUCTION_QUESTIONING \<equiv> Combined PREINSTRUCTION QUESTIONING"
abbreviation A_PREINSTRUCTION_POSITIVEMODELING :: behaviour where
  "A_PREINSTRUCTION_POSITIVEMODELING \<equiv> Combined PREINSTRUCTION POSITIVEMODELING"
abbreviation A_PREINSTRUCTION_NEGATIVEMODELING :: behaviour where
  "A_PREINSTRUCTION_NEGATIVEMODELING \<equiv> Combined PREINSTRUCTION NEGATIVEMODELING"
abbreviation A_PREINSTRUCTION_PRAISE :: behaviour where
  "A_PREINSTRUCTION_PRAISE \<equiv> Combined PREINSTRUCTION PRAISE"
abbreviation A_PREINSTRUCTION_MANUALMANIPULATION :: behaviour where
  "A_PREINSTRUCTION_MANUALMANIPULATION \<equiv> Combined PREINSTRUCTION MANUALMANIPULATION"

abbreviation A_POSTINSTRUCTIONPOSITIVE_QUESTIONING :: behaviour where
  "A_POSTINSTRUCTIONPOSITIVE_QUESTIONING \<equiv> Combined POSTINSTRUCTIONPOSITIVE QUESTIONING"
abbreviation A_POSTINSTRUCTIONPOSITIVE_FIRSTNAME :: behaviour where
  "A_POSTINSTRUCTIONPOSITIVE_FIRSTNAME \<equiv> Combined POSTINSTRUCTIONPOSITIVE FIRSTNAME"
abbreviation A_POSTINSTRUCTIONPOSITIVE_POSITIVE_MODELING :: behaviour where
  "A_POSTINSTRUCTIONPOSITIVE_POSITIVE_MODELING \<equiv> Combined POSTINSTRUCTIONPOSITIVE POSITIVEMODELING"
abbreviation A_POSTINSTRUCTIONPOSITIVE_NEGATIVE_MODELING :: behaviour where
  "A_POSTINSTRUCTIONPOSITIVE_NEGATIVE_MODELING \<equiv> Combined POSTINSTRUCTIONPOSITIVE NEGATIVEMODELING"
abbreviation A_POSTINSTRUCTIONPOSITIVE_MANUALMANIPULATION :: behaviour where
  "A_POSTINSTRUCTIONPOSITIVE_MANUALMANIPULATION \<equiv> Combined POSTINSTRUCTIONPOSITIVE MANUALMANIPULATION"

abbreviation A_POSTINSTRUCTIONNEGATIVE_QUESTIONING :: behaviour where
  "A_POSTINSTRUCTIONNEGATIVE_QUESTIONING \<equiv> Combined POSTINSTRUCTIONNEGATIVE QUESTIONING"
abbreviation A_POSTINSTRUCTIONNEGATIVE_FIRSTNAME :: behaviour where
  "A_POSTINSTRUCTIONNEGATIVE_FIRSTNAME \<equiv> Combined POSTINSTRUCTIONNEGATIVE FIRSTNAME"
abbreviation A_POSTINSTRUCTIONNEGATIVE_POSITIVEMODELING :: behaviour where
  "A_POSTINSTRUCTIONNEGATIVE_POSITIVEMODELING \<equiv> Combined POSTINSTRUCTIONNEGATIVE POSITIVEMODELING"
abbreviation A_POSTINSTRUCTIONNEGATIVE_NEGATIVEMODELING :: behaviour where
  "A_POSTINSTRUCTIONNEGATIVE_NEGATIVEMODELING \<equiv> Combined POSTINSTRUCTIONNEGATIVE NEGATIVEMODELING"
abbreviation A_POSTINSTRUCTIONNEGATIVE_MANUALMANIPULATION :: behaviour where
  "A_POSTINSTRUCTIONNEGATIVE_MANUALMANIPULATION \<equiv> Combined POSTINSTRUCTIONNEGATIVE MANUALMANIPULATION"

abbreviation A_QUESTIONING_FIRSTNAME :: behaviour where
  "A_QUESTIONING_FIRSTNAME \<equiv> Combined QUESTIONING FIRSTNAME"
abbreviation A_QUESTIONING_POSITIVEMODELING :: behaviour where
  "A_QUESTIONING_POSITIVEMODELING \<equiv> Combined QUESTIONING POSITIVEMODELING"
abbreviation A_QUESTIONING_NEGATIVEMODELING :: behaviour where
  "A_QUESTIONING_NEGATIVEMODELING \<equiv> Combined QUESTIONING NEGATIVEMODELING"

abbreviation A_POSITIVEMODELING_QUESTIONING :: behaviour where
  "A_POSITIVEMODELING_QUESTIONING \<equiv> Combined POSITIVEMODELING QUESTIONING"
abbreviation A_POSITIVEMODELING_PREINSTRUCTION :: behaviour where
  "A_POSITIVEMODELING_PREINSTRUCTION \<equiv> Combined POSITIVEMODELING PREINSTRUCTION"
abbreviation A_POSITIVEMODELING_POSTINSTRUCTIONPOSITIVE :: behaviour where
  "A_POSITIVEMODELING_POSTINSTRUCTIONPOSITIVE \<equiv> Combined POSITIVEMODELING POSTINSTRUCTIONPOSITIVE"
abbreviation A_POSITIVEMODELING_PRAISE :: behaviour where
  "A_POSITIVEMODELING_PRAISE \<equiv> Combined POSITIVEMODELING PRAISE"
abbreviation A_POSITIVEMODELING_HUSTLE :: behaviour where
  "A_POSITIVEMODELING_HUSTLE \<equiv> Combined POSITIVEMODELING HUSTLE"
abbreviation A_POSITIVEMODELING_CONCURRENTINSTRUCTIONPOSITIVE :: behaviour where
  "A_POSITIVEMODELING_CONCURRENTINSTRUCTIONPOSITIVE \<equiv>
     Combined POSITIVEMODELING CONCURRENTINSTRUCTIONPOSITIVE"
abbreviation A_NEGATIVEMODELING_POSTINSTRUCTIONNEGATIVE :: behaviour where
  "A_NEGATIVEMODELING_POSTINSTRUCTIONNEGATIVE \<equiv> Combined NEGATIVEMODELING POSTINSTRUCTIONNEGATIVE"

abbreviation A_PRAISE_FIRSTNAME :: behaviour where
  "A_PRAISE_FIRSTNAME \<equiv> Combined PRAISE FIRSTNAME"
abbreviation A_SCOLD_FIRSTNAME :: behaviour where
  "A_SCOLD_FIRSTNAME \<equiv> Combined SCOLD FIRSTNAME"
abbreviation A_SCOLD_POSITIVEMODELING :: behaviour where
  "A_SCOLD_POSITIVEMODELING \<equiv> Combined SCOLD POSITIVEMODELING"
abbreviation A_CONSOLE_FIRSTNAME :: behaviour where
  "A_CONSOLE_FIRSTNAME \<equiv> Combined CONSOLE FIRSTNAME"
abbreviation A_HUSTLE_FIRSTNAME :: behaviour where
  "A_HUSTLE_FIRSTNAME \<equiv> Combined HUSTLE FIRSTNAME"

abbreviation A_CONCURRENTINSTRUCTIONPOSITIVE_QUESTIONING :: behaviour where
  "A_CONCURRENTINSTRUCTIONPOSITIVE_QUESTIONING \<equiv> Combined CONCURRENTINSTRUCTIONPOSITIVE QUESTIONING"
abbreviation A_CONCURRENTINSTRUCTIONPOSITIVE_FIRSTNAME :: behaviour where
  "A_CONCURRENTINSTRUCTIONPOSITIVE_FIRSTNAME \<equiv> Combined CONCURRENTINSTRUCTIONPOSITIVE FIRSTNAME"
abbreviation A_CONCURRENTINSTRUCTIONPOSITIVE_POSITIVEMODELING :: behaviour where
  "A_CONCURRENTINSTRUCTIONPOSITIVE_POSITIVEMODELING \<equiv>
     Combined CONCURRENTINSTRUCTIONPOSITIVE POSITIVEMODELING"
abbreviation A_CONCURRENTINSTRUCTIONPOSITIVE_PRAISE :: behaviour where
  "A_CONCURRENTINSTRUCTIONPOSITIVE_PRAISE \<equiv> Combined CONCURRENTINSTRUCTIONPOSITIVE PRAISE"
abbreviation A_CONCURRENTINSTRUCTIONPOSITIVE_MANUALMANIPULATION :: behaviour where
  "A_CONCURRENTINSTRUCTIONPOSITIVE_MANUALMANIPULATION \<equiv>
     Combined CONCURRENTINSTRUCTIONPOSITIVE MANUALMANIPULATION"
abbreviation A_CONCURRENTINSTRUCTIONNEGATIVE_NEGATIVEMODELING :: behaviour where
  "A_CONCURRENTINSTRUCTIONNEGATIVE_NEGATIVEMODELING \<equiv>
     Combined CONCURRENTINSTRUCTIONNEGATIVE NEGATIVEMODELING"
abbreviation A_CONCURRENTINSTRUCTIONNEGATIVE_FIRSTNAME :: behaviour where
  "A_CONCURRENTINSTRUCTIONNEGATIVE_FIRSTNAME \<equiv> Combined CONCURRENTINSTRUCTIONNEGATIVE FIRSTNAME"
abbreviation A_CONCURRENTINSTRUCTIONNEGATIVE_MANUALMANIPULATION :: behaviour where
  "A_CONCURRENTINSTRUCTIONNEGATIVE_MANUALMANIPULATION \<equiv>
     Combined CONCURRENTINSTRUCTIONNEGATIVE MANUALMANIPULATION"

abbreviation A_MANUALMANIPULATION_QUESTIONING :: behaviour where
  "A_MANUALMANIPULATION_QUESTIONING \<equiv> Combined MANUALMANIPULATION QUESTIONING"
abbreviation A_MANUALMANIPULATION_PREINSTRUCTION :: behaviour where
  "A_MANUALMANIPULATION_PREINSTRUCTION \<equiv> Combined MANUALMANIPULATION PREINSTRUCTION"
abbreviation A_MANUALMANIPULATION_POSITIVEMODELING :: behaviour where
  "A_MANUALMANIPULATION_POSITIVEMODELING \<equiv> Combined MANUALMANIPULATION POSITIVEMODELING"
abbreviation A_MANUALMANIPULATION_CONCURRENTINSTRUCTIONNEGATIVE :: behaviour where
  "A_MANUALMANIPULATION_CONCURRENTINSTRUCTIONNEGATIVE \<equiv>
     Combined MANUALMANIPULATION CONCURRENTINSTRUCTIONNEGATIVE"
abbreviation A_MANUALMANIPULATION_CONCURRENTINSTRUCTIONPOSITIVE :: behaviour where
  "A_MANUALMANIPULATION_CONCURRENTINSTRUCTIONPOSITIVE \<equiv>
     Combined MANUALMANIPULATION CONCURRENTINSTRUCTIONPOSITIVE"
abbreviation A_MANUALMANIPULATION_CONSOLE :: behaviour where
  "A_MANUALMANIPULATION_CONSOLE \<equiv> Combined MANUALMANIPULATION CONSOLE"
abbreviation A_MANUALMANIPULATION_FIRSTNAME :: behaviour where
  "A_MANUALMANIPULATION_FIRSTNAME \<equiv> Combined MANUALMANIPULATION FIRSTNAME"
abbreviation A_MANUALMANIPULATION_HUSTLE :: behaviour where
  "A_MANUALMANIPULATION_HUSTLE \<equiv> Combined MANUALMANIPULATION HUSTLE"
abbreviation A_MANUALMANIPULATION_POSTINSTRUCTIONNEGATIVE :: behaviour where
  "A_MANUALMANIPULATION_POSTINSTRUCTIONNEGATIVE \<equiv>
     Combined MANUALMANIPULATION POSTINSTRUCTIONNEGATIVE"
abbreviation A_MANUALMANIPULATION_POSTINSTRUCTIONPOSITIVE :: behaviour where
  "A_MANUALMANIPULATION_POSTINSTRUCTIONPOSITIVE \<equiv>
     Combined MANUALMANIPULATION POSTINSTRUCTIONPOSITIVE"
abbreviation A_MANUALMANIPULATION_PRAISE :: behaviour where
  "A_MANUALMANIPULATION_PRAISE \<equiv> Combined MANUALMANIPULATION PRAISE"

text \<open>
  Modelled from the spec: the goal levels, phases and performance levels are integer
  constants of the missing \<open>config\<close> module. Their values are the ones the spec gives
  (Person=0, Session=1, Exercise=2, Set=3, Action=4; Good=0, Fast=1, Slow=2) and the
  ones written in the string literal at the head of class \<open>PolicyWrapper\<close>
  (\<open>PHASE_START = 0\<close>, \<open>PHASE_END = 1\<close>). They stay Python integers: the nodes compare
  goal levels with \<open>>\<close> and compute \<open>goal_level - 1\<close>, which may leave the range.
\<close>

definition PERSON_GOAL :: int where "PERSON_GOAL = 0"
definition SESSION_GOAL :: int where "SESSION_GOAL = 1"
definition EXERCISE_GOAL :: int where "EXERCISE_GOAL = 2"
definition SET_GOAL :: int where "SET_GOAL = 3"
definition ACTION_GOAL :: int where "ACTION_GOAL = 4"

definition PHASE_START :: int where "PHASE_START = 0"
definition PHASE_END :: int where "PHASE_END = 1"

definition GOOD :: int where "GOOD = 0"
definition FAST :: int where "FAST = 1"
definition SLOW :: int where "SLOW = 2"

lemmas config_defs =
  PERSON_GOAL_def SESSION_GOAL_def EXERCISE_GOAL_def SET_GOAL_def ACTION_GOAL_def
  PHASE_START_def PHASE_END_def GOOD_def FAST_def SLOW_def

section \<open>Validity rules: \<open>PolicyWrapper._get_valid_list\<close>\<close>

text \<open>
  The performance is a Python integer or \<open>None\<close> (no data yet), hence \<open>int option\<close>.
  The list is built exactly as the source builds it, duplicates included (the Start
  phase extends the list with the praise variants twice).
\<close>

definition get_valid_list :: "int \<Rightarrow> int option \<Rightarrow> int \<Rightarrow> behaviour list" where
  "get_valid_list goal_level performance phase =
    (if goal_level = PERSON_GOAL then
       (if phase = PHASE_START then [A_PREINSTRUCTION, A_PREINSTRUCTION_FIRSTNAME]
        else [A_END])
     else if goal_level = SESSION_GOAL \<or> goal_level = EXERCISE_GOAL \<or> goal_level = SET_GOAL then
       [A_POSTINSTRUCTIONPOSITIVE, A_POSTINSTRUCTIONNEGATIVE,
        A_QUESTIONING, A_POSTINSTRUCTIONPOSITIVE_QUESTIONING,
        A_POSTINSTRUCTIONPOSITIVE_FIRSTNAME,
        A_POSTINSTRUCTIONNEGATIVE_QUESTIONING, A_QUESTIONING_FIRSTNAME,
        A_POSTINSTRUCTIONNEGATIVE_FIRSTNAME,
        A_QUESTIONING_POSITIVEMODELING, A_POSITIVEMODELING_QUESTIONING,
        A_POSTINSTRUCTIONPOSITIVE_POSITIVE_MODELING,
        A_POSTINSTRUCTIONPOSITIVE_NEGATIVE_MODELING,
        A_POSTINSTRUCTIONNEGATIVE_POSITIVEMODELING,
        A_POSTINSTRUCTIONNEGATIVE_NEGATIVEMODELING,
        A_QUESTIONING_NEGATIVEMODELING,
        A_POSITIVEMODELING_POSTINSTRUCTIONPOSITIVE,
        A_NEGATIVEMODELING_POSTINSTRUCTIONNEGATIVE]
       @ (if phase = PHASE_START then
            [A_PREINSTRUCTION, A_PREINSTRUCTION_QUESTIONING,
             A_PREINSTRUCTION_FIRSTNAME,
             A_PREINSTRUCTION_POSITIVEMODELING,
             A_PREINSTRUCTION_NEGATIVEMODELING,
             A_POSITIVEMODELING_PREINSTRUCTION]
            @ (if performance = Some GOOD then
                 [A_PRAISE, A_PRAISE_FIRSTNAME, A_POSITIVEMODELING_PRAISE]
                 @ [A_PRAISE, A_PRAISE_FIRSTNAME, A_POSITIVEMODELING_PRAISE]
               else if performance = Some SLOW \<or> performance = Some FAST then
                 [A_SCOLD, A_CONSOLE, A_SCOLD_FIRSTNAME, A_CONSOLE_FIRSTNAME]
               else [])
          else
            (if goal_level = SESSION_GOAL then [A_END] else [])
            @ (if performance = Some GOOD then
                 [A_PRAISE, A_PRAISE_FIRSTNAME, A_POSITIVEMODELING_PRAISE]
               else if performance = Some SLOW \<or> performance = Some FAST then
                 [A_SCOLD, A_CONSOLE, A_SCOLD_FIRSTNAME, A_CONSOLE_FIRSTNAME]
               else []))
     else
       [A_SILENCE, A_CONCURRENTINSTRUCTIONPOSITIVE,
        A_QUESTIONING, A_POSITIVEMODELING, A_HUSTLE,
        A_CONCURRENTINSTRUCTIONPOSITIVE_QUESTIONING,
        A_CONCURRENTINSTRUCTIONPOSITIVE_FIRSTNAME,
        A_QUESTIONING_FIRSTNAME, A_HUSTLE_FIRSTNAME,
        A_CONCURRENTINSTRUCTIONPOSITIVE_POSITIVEMODELING,
        A_POSITIVEMODELING_HUSTLE,
        A_POSITIVEMODELING_CONCURRENTINSTRUCTIONPOSITIVE]
       @ (if performance = Some GOOD then
            [A_PRAISE, A_PRAISE_FIRSTNAME,
             A_CONCURRENTINSTRUCTIONPOSITIVE_PRAISE,
             A_POSITIVEMODELING_PRAISE]
          else if performance = Some SLOW \<or> performance = Some FAST then
            [A_CONCURRENTINSTRUCTIONNEGATIVE, A_NEGATIVEMODELING,
             A_SCOLD, A_CONSOLE,
             A_QUESTIONING_NEGATIVEMODELING, A_SCOLD_POSITIVEMODELING,
             A_SCOLD_FIRSTNAME, A_CONSOLE_FIRSTNAME,
             A_CONCURRENTINSTRUCTIONNEGATIVE_NEGATIVEMODELING,
             A_CONCURRENTINSTRUCTIONNEGATIVE_FIRSTNAME]
          else []))"

section \<open>The policy sampler and \<open>PolicyWrapper.get_behaviour\<close>\<close>

text \<open>
  The class \<open>Policy\<close> is an external collaborator: \<open>sample_action(state)\<close> draws a
  behaviour and \<open>sample_observation(state, action)\<close> draws the next state. Both are
  stochastic, so the model threads the randomness \<open>'r\<close> (the generator's state) through
  the calls in program order; a policy is any pair of such functions.
\<close>

record 'r policy =
  sample_action :: "'r \<Rightarrow> int \<Rightarrow> behaviour \<times> 'r"
  sample_observation :: "'r \<Rightarrow> int \<Rightarrow> behaviour \<Rightarrow> int \<times> 'r"

text \<open>
  One pass through the body of the \<open>while\<close> loop of \<open>get_behaviour\<close> (lines 77 to 123),
  on the loop variables \<open>behaviour\<close>, \<open>state\<close>, \<open>count\<close> and the randomness. The
  statement \<open>count += 1\<close> closes every pass that is not at the Action goal, also the one
  that has just set \<open>count = 0\<close>.
\<close>

definition loop_body ::
  "'r policy \<Rightarrow> int \<Rightarrow> behaviour \<Rightarrow> int \<Rightarrow> int \<Rightarrow> 'r \<Rightarrow> behaviour \<times> int \<times> int \<times> 'r" where
  "loop_body pol goal_level behaviour state count r =
    (if goal_level = ACTION_GOAL then (A_SILENCE, state, count, r)
     else if count \<le> 10 then
       (case sample_action pol r state of (b, r1) \<Rightarrow> (b, state, count + 1, r1))
     else if behaviour = A_MANUALMANIPULATION_QUESTIONING then
       (A_QUESTIONING, state, count + 1, r)
     else if behaviour = A_MANUALMANIPULATION_PREINSTRUCTION
           \<or> behaviour = A_PREINSTRUCTION_MANUALMANIPULATION then
       (A_PREINSTRUCTION, state, count + 1, r)
     else if behaviour = A_MANUALMANIPULATION_POSITIVEMODELING then
       (A_POSITIVEMODELING, state, count + 1, r)
     else if behaviour = A_MANUALMANIPULATION_CONCURRENTINSTRUCTIONNEGATIVE
           \<or> behaviour = A_CONCURRENTINSTRUCTIONNEGATIVE_MANUALMANIPULATION then
       (A_CONCURRENTINSTRUCTIONNEGATIVE, state, count + 1, r)
     else if behaviour = A_MANUALMANIPULATION_CONCURRENTINSTRUCTIONPOSITIVE
           \<or> behaviour = A_CONCURRENTINSTRUCTIONPOSITIVE_MANUALMANIPULATION then
       (A_CONCURRENTINSTRUCTIONPOSITIVE, state, count + 1, r)
     else if behaviour = A_MANUALMANIPULATION_CONSOLE then
       (A_CONSOLE, state, count + 1, r)
     else if behaviour = A_MANUALMANIPULATION_FIRSTNAME then
       (A_FIRSTNAME, state, count + 1, r)
     else if behaviour = A_MANUALMANIPULATION_HUSTLE then
       (A_HUSTLE, state, count + 1, r)
     else if behaviour = A_MANUALMANIPULATION_POSTINSTRUCTIONNEGATIVE
           \<or> behaviour = A_POSTINSTRUCTIONNEGATIVE_MANUALMANIPULATION then
       (A_POSTINSTRUCTIONNEGATIVE, state, count + 1, r)
     else if behaviour = A_MANUALMANIPULATION_POSTINSTRUCTIONPOSITIVE
           \<or> behaviour = A_POSTINSTRUCTIONPOSITIVE_MANUALMANIPULATION then
       (A_POSTINSTRUCTIONPOSITIVE, state, count + 1, r)
     else if behaviour = A_MANUALMANIPULATION_PRAISE then
       (A_PRAISE, state, count + 1, r)
     else
       (case sample_observation pol r state (if behaviour = A_END then A_START else behaviour) of
          (state', r1) \<Rightarrow>
            (case sample_action pol r1 state' of (b, r2) \<Rightarrow> (b, state', 0 + 1, r2))))"

text \<open>
  The \<open>while not (behaviour in valid_behaviours)\<close> loop. The source has no bound on the
  number of passes, so the loop is a partial function: \<open>None\<close> means that it never exits.
\<close>

partial_function (option) get_behaviour_while ::
  "'r policy \<Rightarrow> behaviour list \<Rightarrow> int \<Rightarrow> behaviour \<Rightarrow> int \<Rightarrow> int \<Rightarrow> 'r \<Rightarrow> (behaviour \<times> 'r) option"
  where
  "get_behaviour_while pol valid_behaviours goal_level behaviour state count r =
    (if behaviour \<in> set valid_behaviours then Some (behaviour, r)
     else (case loop_body pol goal_level behaviour state count r of
             (b, state', count', r') \<Rightarrow>
               get_behaviour_while pol valid_behaviours goal_level b state' count' r'))"

text \<open>
  What a Python call hands back is either one value or a tuple; a caller that unpacks
  two values needs the tuple. \<open>get_behaviour\<close> ends in \<open>return behaviour\<close> (the second
  component \<open>obs_behaviour\<close> is commented out), so it hands back a single value.
\<close>

datatype ('a, 'b) returned = Single 'a | Tuple2 'a 'b

definition get_behaviour ::
  "'r policy \<Rightarrow> 'r \<Rightarrow> int \<Rightarrow> int \<Rightarrow> int option \<Rightarrow> int \<Rightarrow> ((behaviour, 'b) returned \<times> 'r) option" where
  "get_behaviour pol r state goal_level performance phase =
    (let valid_behaviours = get_valid_list goal_level performance phase in
     case (if goal_level = PERSON_GOAL \<and> phase = PHASE_END then (A_END, r)
           else sample_action pol r state) of
       (behaviour, r1) \<Rightarrow>
         (case get_behaviour_while pol valid_behaviours goal_level behaviour state 0 r1 of
            None \<Rightarrow> None
          | Some (b, r2) \<Rightarrow> Some (Single b, r2)))"

definition get_observation :: "'r policy \<Rightarrow> 'r \<Rightarrow> int \<Rightarrow> behaviour \<Rightarrow> int \<times> 'r" where
  "get_observation pol r state behaviour = sample_observation pol r state behaviour"

text \<open>
  A test double for the sampler: the randomness is the number of behaviours drawn so far,
  the \<open>n\<close>-th draw is \<open>f n\<close> whatever the state, and every observation moves to the
  next state index.
\<close>

definition script_policy :: "(nat \<Rightarrow> behaviour) \<Rightarrow> nat policy" where
  "script_policy f =
     \<lparr> sample_action = (\<lambda>n state. (f n, Suc n)),
       sample_observation = (\<lambda>n state action. (state + 1, n)) \<rparr>"

text \<open>
  A script whose first eleven draws (the initial sample and ten more) are the compound
  Manual-Manipulation-with-Questioning, invalid at every goal level, and whose later draws
  are Pre-Instruction.
\<close>

definition late_valid_script :: "nat \<Rightarrow> behaviour" where
  "late_valid_script n =
     (if n < 11 then A_MANUALMANIPULATION_QUESTIONING else A_PREINSTRUCTION)"

section \<open>The blackboard, the controller module and the library\<close>

text \<open>
  Modelled from the spec: the blackboard (\<open>nodedata\<close>) belongs to the tree runtime and
  the module \<open>controller\<close> holds the process-wide session state; neither is among the
  sources. The records have the slots that the modelled nodes read or write. A slot that
  may hold \<open>None\<close> is an option. Scores and targets are Python floats, a type of
  which nothing is assumed: their arithmetic is the library's.
\<close>

datatype NodeStatus = SUCCESS | FAIL | ACTIVE

datatype error = TypeError | AttributeError | StatisticsError | OSError

datatype completed_status = COMPLETED_STATUS_FALSE | COMPLETED_STATUS_TRUE

typedecl pyfloat

record nodedata =
  nd_behaviour :: "behaviour option"
  nd_obs_behaviour :: "behaviour option"
  nd_observation :: "int option"
  nd_new_goal :: "int option"
  nd_phase :: "int option"
  nd_performance :: "int option"
  nd_score :: "pyfloat option"
  nd_target :: "pyfloat option"
  nd_sessions :: "int option"
  nd_user_impairment :: "int option"
  nd_name :: "string option"

record controller =
  used_behaviours :: "behaviour list"
  prev_behav :: "behaviour option"
  ctl_goal_level :: int
  ctl_phase :: int
  completed :: completed_status
  session_time :: int
  set_count :: int
  exercise_count :: int
  ctl_performance :: "int option"
  ctl_score :: "pyfloat option"
  ctl_target :: "pyfloat option"
  session_performance_list :: "int list"
  set_performance_list :: "int list"
  set_score_list :: "pyfloat list"
  exercise_performance_list :: "int list"
  exercise_score_list :: "pyfloat list"
  expecting_action_goal :: bool
  ctl_sessions :: "int option"
  ctl_impairment :: "int option"
  ctl_name :: "string option"

text \<open>
  What \<open>TimestepCue.run\<close> takes from outside the repository: \<open>round(mean(xs))\<close> on a
  list of integers and \<open>mean(xs)\<close> on a list of floats (\<open>statistics.mean\<close> raises
  \<open>StatisticsError\<close> on an empty list), the float a decimal literal denotes, and the
  performance of the previous session as read from the participant's history file
  (\<open>None\<close> when the file counts no session, an error when it cannot be read).
\<close>

record env =
  round_mean :: "int list \<Rightarrow> error + int"
  mean :: "pyfloat list \<Rightarrow> error + pyfloat"
  float_literal :: "rat \<Rightarrow> pyfloat"
  previous_session_performance :: "error + int option"

section \<open>Reading a constant from class \<open>PolicyWrapper\<close>\<close>

text \<open>
  \<open>nodes.py\<close> reads the goal levels, phases and performance levels as attributes of the
  class: \<open>PolicyWrapper.ACTION_GOAL\<close>, \<open>PolicyWrapper.PHASE_END\<close> and so on. The body of the
  class in \<open>policy_wrapper.py\<close> binds its six methods (\<open>__init__\<close>, \<open>get_behaviour\<close>,
  \<open>_get_valid_list\<close>, \<open>get_observation\<close>, \<open>get_matrix\<close>, \<open>update_matrix\<close>) and nothing
  else: lines 36 to 50, where these names are written, are one string literal. The class
  therefore has no integer attribute, and reading one raises \<open>AttributeError\<close>.
\<close>

definition PolicyWrapper_int_attributes :: "(string \<times> int) list" where
  "PolicyWrapper_int_attributes = []"

definition PolicyWrapper_constant :: "string \<Rightarrow> error + int" where
  "PolicyWrapper_constant name =
     (case map_of PolicyWrapper_int_attributes name of
        None \<Rightarrow> Inl AttributeError
      | Some v \<Rightarrow> Inr v)"

text \<open>
  A statement that reads a constant when the node's state is \<open>s\<close>: the exception leaves
  the node with that state and no status, otherwise the node goes on with the value.
\<close>

definition read_constant ::
  "string \<Rightarrow> 's \<Rightarrow> (int \<Rightarrow> (error + 'a) \<times> 's) \<Rightarrow> (error + 'a) \<times> 's" where
  "read_constant name s k =
     (case PolicyWrapper_constant name of
        Inl e \<Rightarrow> (Inl e, s)
      | Inr v \<Rightarrow> k v)"

text \<open>
  \<open>goal == PolicyWrapper.n1 or goal == PolicyWrapper.n2 or ...\<close>, evaluated from left to
  right as Python does: a later constant is read only if the earlier comparisons are false.
\<close>

fun goal_is_one_of :: "int \<Rightarrow> string list \<Rightarrow> error + bool" where
  "goal_is_one_of goal [] = Inr False"
| "goal_is_one_of goal (name # names) =
     (case PolicyWrapper_constant name of
        Inl e \<Rightarrow> Inl e
      | Inr v \<Rightarrow> if goal = v then Inr True else goal_is_one_of goal names)"

section \<open>The decision step driver: \<open>GetBehaviour.run\<close> and \<open>CheckForBehaviour.run\<close>\<close>

text \<open>
  Line 124 of \<open>nodes.py\<close> assigns the result of \<open>get_behaviour\<close> to the two targets
  \<open>nodedata.behaviour, nodedata.obs_behaviour\<close>. Unpacking a single integer raises
  \<open>TypeError\<close> before either target is written.
\<close>

definition unpack2 :: "('a, 'b) returned \<Rightarrow> error + ('a \<times> 'b)" where
  "unpack2 v = (case v of Single x \<Rightarrow> Inl TypeError | Tuple2 x y \<Rightarrow> Inr (x, y))"

text \<open>
  \<open>GetBehaviour.run\<close>, lines 122 to 140, for a node configured with \<open>state\<close>,
  \<open>goal_level\<close>, \<open>performance\<close> and \<open>phase\<close>. \<open>None\<close> means that \<open>get_behaviour\<close> does
  not return. In line 128 the test \<open>nodedata.behaviour in controller.used_behaviours\<close>
  comes first, so the goal constants are read only for a behaviour used before.
\<close>

definition GetBehaviour_run ::
  "'r policy \<Rightarrow> 'r \<Rightarrow> int \<Rightarrow> int \<Rightarrow> int option \<Rightarrow> int \<Rightarrow> nodedata \<Rightarrow> controller
     \<Rightarrow> ((error + NodeStatus) \<times> nodedata \<times> controller \<times> 'r) option" where
  "GetBehaviour_run pol r state goal_level performance phase nd ctl =
    (case get_behaviour pol r state goal_level performance phase of
       None \<Rightarrow> None
     | Some (v, r1) \<Rightarrow>
         Some
          (case unpack2 v of
             Inl e \<Rightarrow> (Inl e, nd, ctl, r1)
           | Inr (behaviour, obs_behaviour) \<Rightarrow>
               (let nd1 = nd\<lparr>nd_behaviour := Some behaviour,
                             nd_obs_behaviour := Some obs_behaviour\<rparr>
                in case (if behaviour \<in> set (used_behaviours ctl)
                         then goal_is_one_of goal_level
                                [''SESSION_GOAL'', ''EXERCISE_GOAL'', ''SET_GOAL'']
                         else Inr False) of
                     Inl e \<Rightarrow> (Inl e, nd1, ctl, r1)
                   | Inr suppress \<Rightarrow>
                       (case (if suppress then (A_PREINSTRUCTION, ctl)
                              else (behaviour,
                                    ctl\<lparr>used_behaviours := used_behaviours ctl @ [behaviour]\<rparr>)) of
                          (b, ctl1) \<Rightarrow>
                            (case get_observation pol r1 state obs_behaviour of
                               (obs, r2) \<Rightarrow>
                                 (Inr SUCCESS,
                                  nd1\<lparr>nd_behaviour := Some b, nd_observation := Some obs\<rparr>,
                                  ctl1\<lparr>prev_behav := Some b\<rparr>,
                                  r2))))))"

definition is_example_of_behaviour :: "behaviour \<Rightarrow> behaviour \<Rightarrow> bool" where
  "is_example_of_behaviour behaviour check_behaviour =
    (behaviour \<in> set
       (if check_behaviour = A_PREINSTRUCTION then
          [A_PREINSTRUCTION, A_PREINSTRUCTION_PRAISE, A_PREINSTRUCTION_QUESTIONING,
           A_PREINSTRUCTION_POSITIVEMODELING, A_POSITIVEMODELING_PREINSTRUCTION,
           A_PREINSTRUCTION_FIRSTNAME, A_PREINSTRUCTION_MANUALMANIPULATION,
           A_PREINSTRUCTION_NEGATIVEMODELING, A_MANUALMANIPULATION_PREINSTRUCTION]
        else
          [A_QUESTIONING, A_PREINSTRUCTION_QUESTIONING, A_QUESTIONING_FIRSTNAME,
           A_QUESTIONING_POSITIVEMODELING, A_POSITIVEMODELING_QUESTIONING,
           A_CONCURRENTINSTRUCTIONPOSITIVE_QUESTIONING, A_MANUALMANIPULATION_QUESTIONING,
           A_POSTINSTRUCTIONNEGATIVE_QUESTIONING, A_POSTINSTRUCTIONPOSITIVE_QUESTIONING,
           A_QUESTIONING_NEGATIVEMODELING]))"

definition CheckForBehaviour_run ::
  "behaviour \<Rightarrow> behaviour \<Rightarrow> controller \<Rightarrow> NodeStatus \<times> controller" where
  "CheckForBehaviour_run behaviour check_behaviour ctl =
    (if is_example_of_behaviour behaviour check_behaviour
     then (SUCCESS, ctl\<lparr>used_behaviours := []\<rparr>)
     else (FAIL, ctl))"

section \<open>Goal transitions: \<open>CreateSubgoal.run\<close> and \<open>EndSubgoal.run\<close>\<close>

definition CreateSubgoal_run ::
  "int \<Rightarrow> nodedata \<Rightarrow> (error + NodeStatus) \<times> nodedata" where
  "CreateSubgoal_run previous_goal_level nd =
    read_constant ''ACTION_GOAL'' nd (\<lambda>action_goal.
      if previous_goal_level > action_goal then (Inr FAIL, nd)
      else (Inr SUCCESS, nd\<lparr>nd_new_goal := Some (previous_goal_level + 1)\<rparr>))"

text \<open>
  \<open>EndSubgoal.run\<close>, lines 575 to 587: what follows the choice of the controller's phase.
  When the new goal is \<open>-1\<close> the source calls \<open>time.sleep(5.0)\<close>, but the module binds
  \<open>time\<close> by \<open>from time import time\<close>, a function without an attribute \<open>sleep\<close>.
\<close>

definition EndSubgoal_finish ::
  "int \<Rightarrow> nodedata \<Rightarrow> controller \<Rightarrow> (error + NodeStatus) \<times> nodedata \<times> controller" where
  "EndSubgoal_finish goal_level nd ctl =
    (let nd1 = nd\<lparr>nd_new_goal := Some (goal_level - 1)\<rparr> in
     read_constant ''PHASE_START'' (nd1, ctl) (\<lambda>phase_start.
       let nd2 = nd1\<lparr>nd_phase := Some phase_start\<rparr>;
           ctl2 = ctl\<lparr>completed := COMPLETED_STATUS_TRUE\<rparr>
       in read_constant ''EXERCISE_GOAL'' (nd2, ctl2) (\<lambda>exercise_goal.
            let ctl3 = (if goal_level = exercise_goal
                        then ctl2\<lparr>session_time := session_time ctl2 + 1\<rparr> else ctl2)
            in if goal_level - 1 = -1 then (Inl AttributeError, nd2, ctl3)
               else (Inr SUCCESS, nd2, ctl3))))"

text \<open>Lines 571 and 572: the branch taken when feedback is owed.\<close>

definition EndSubgoal_feedback ::
  "int \<Rightarrow> nodedata \<Rightarrow> controller \<Rightarrow> (error + NodeStatus) \<times> nodedata \<times> controller" where
  "EndSubgoal_feedback goal_level nd ctl =
    (let ctl1 = ctl\<lparr>ctl_goal_level := ctl_goal_level ctl - 1\<rparr> in
     read_constant ''PHASE_END'' (nd, ctl1) (\<lambda>phase_end.
       EndSubgoal_finish goal_level nd (ctl1\<lparr>ctl_phase := phase_end\<rparr>)))"

text \<open>
  \<open>EndSubgoal.run\<close>. The guard of line 566 compares with the literal 4; the condition of
  line 570 reads \<open>PolicyWrapper.SET_GOAL\<close> first.
\<close>

definition EndSubgoal_run ::
  "int \<Rightarrow> nodedata \<Rightarrow> controller \<Rightarrow> (error + NodeStatus) \<times> nodedata \<times> controller" where
  "EndSubgoal_run goal_level nd ctl =
    (if goal_level > 4 then (Inr FAIL, nd, ctl)
     else
       read_constant ''SET_GOAL'' (nd, ctl) (\<lambda>set_goal.
         if goal_level = set_goal \<and> set_count ctl = 2 then EndSubgoal_feedback goal_level nd ctl
         else
           read_constant ''EXERCISE_GOAL'' (nd, ctl) (\<lambda>exercise_goal.
             if goal_level = exercise_goal then EndSubgoal_feedback goal_level nd ctl
             else
               read_constant ''SESSION_GOAL'' (nd, ctl) (\<lambda>session_goal.
                 if goal_level = session_goal then EndSubgoal_feedback goal_level nd ctl
                 else
                   read_constant ''PHASE_START'' (nd, ctl) (\<lambda>phase_start.
                     EndSubgoal_finish goal_level nd (ctl\<lparr>ctl_phase := phase_start\<rparr>))))))"

section \<open>\<open>TimestepCue.run\<close>\<close>

text \<open>
  The branches of \<open>TimestepCue.run\<close>, one definition each, then the chain of tests that
  selects one. The statements of lines 653 to 657 and 680 to 687, which write the
  session's performance to the participant's files, are outside the model.
\<close>

definition TimestepCue_person ::
  "env \<Rightarrow> nodedata \<Rightarrow> controller \<Rightarrow> (error + NodeStatus) \<times> nodedata \<times> controller" where
  "TimestepCue_person env nd ctl =
    read_constant ''PERSON_GOAL'' (nd, ctl) (\<lambda>person_goal.
      if ctl_goal_level ctl = person_goal then
        read_constant ''PHASE_END'' (nd, ctl) (\<lambda>phase_end.
          if ctl_phase ctl = phase_end then
            (case round_mean env (session_performance_list ctl) of
               Inl e \<Rightarrow> (Inl e, nd, ctl)
             | Inr p \<Rightarrow>
                 (let nd1 = nd\<lparr>nd_performance := Some p\<rparr> in
                  read_constant ''PHASE_END'' (nd1, ctl) (\<lambda>phase_end.
                    (Inr SUCCESS, nd1\<lparr>nd_phase := Some phase_end\<rparr>, ctl))))
          else
            (let nd1 = nd\<lparr>nd_sessions := ctl_sessions ctl,
                          nd_user_impairment := ctl_impairment ctl,
                          nd_name := ctl_name ctl\<rparr> in
             read_constant ''PHASE_START'' (nd1, ctl) (\<lambda>phase_start.
               (Inr SUCCESS, nd1\<lparr>nd_phase := Some phase_start\<rparr>, ctl))))
      else (Inr ACTIVE, nd, ctl))"

definition TimestepCue_session ::
  "env \<Rightarrow> nodedata \<Rightarrow> controller \<Rightarrow> (error + NodeStatus) \<times> nodedata \<times> controller" where
  "TimestepCue_session env nd ctl =
    read_constant ''SESSION_GOAL'' (nd, ctl) (\<lambda>session_goal.
      if ctl_goal_level ctl = session_goal then
        read_constant ''PHASE_END'' (nd, ctl) (\<lambda>phase_end.
          if ctl_phase ctl = phase_end then
            (case round_mean env (session_performance_list ctl) of
               Inl e \<Rightarrow> (Inl e, nd, ctl)
             | Inr p \<Rightarrow>
                 (let nd1 = nd\<lparr>nd_performance := Some p\<rparr> in
                  read_constant ''PHASE_END'' (nd1, ctl) (\<lambda>phase_end.
                    (Inr SUCCESS, nd1\<lparr>nd_phase := Some phase_end\<rparr>, ctl))))
          else
            (let nd1 = nd\<lparr>nd_performance := ctl_performance ctl\<rparr> in
             read_constant ''PHASE_START'' (nd1, ctl) (\<lambda>phase_start.
               (Inr SUCCESS, nd1\<lparr>nd_phase := Some phase_start\<rparr>, ctl))))
      else
        (case previous_session_performance env of
           Inl e \<Rightarrow> (Inl e, nd, ctl)
         | Inr previous \<Rightarrow>
             (let ctl1 = (case previous of
                            None \<Rightarrow> ctl
                          | Some p \<Rightarrow> ctl\<lparr>ctl_performance := Some p\<rparr>) in
              read_constant ''SESSION_GOAL'' (nd, ctl1) (\<lambda>session_goal.
                (Inr ACTIVE, nd, ctl1\<lparr>ctl_goal_level := session_goal\<rparr>)))))"

definition TimestepCue_exercise ::
  "env \<Rightarrow> nodedata \<Rightarrow> controller \<Rightarrow> (error + NodeStatus) \<times> nodedata \<times> controller" where
  "TimestepCue_exercise env nd ctl =
    read_constant ''EXERCISE_GOAL'' (nd, ctl) (\<lambda>exercise_goal.
      if ctl_goal_level ctl = exercise_goal then
        read_constant ''PHASE_END'' (nd, ctl) (\<lambda>phase_end.
          if ctl_phase ctl = phase_end then
            (case round_mean env (exercise_performance_list ctl) of
               Inl e \<Rightarrow> (Inl e, nd, ctl)
             | Inr p \<Rightarrow>
                 (let nd1 = nd\<lparr>nd_performance := Some p\<rparr> in
                  case mean env (exercise_score_list ctl) of
                    Inl e \<Rightarrow> (Inl e, nd1, ctl)
                  | Inr s \<Rightarrow>
                      (let nd2 = nd1\<lparr>nd_score := Some s, nd_target := ctl_target ctl\<rparr> in
                       read_constant ''PHASE_END'' (nd2, ctl) (\<lambda>phase_end.
                         (Inr SUCCESS, nd2\<lparr>nd_phase := Some phase_end\<rparr>, ctl)))))
          else
            (let nd1 = nd\<lparr>nd_performance := ctl_performance ctl\<rparr> in
             read_constant ''PHASE_START'' (nd1, ctl) (\<lambda>phase_start.
               let nd2 = nd1\<lparr>nd_phase := Some phase_start\<rparr> in
               read_constant ''SET_GOAL'' (nd2, ctl) (\<lambda>set_goal.
                 (Inr SUCCESS, nd2, ctl\<lparr>ctl_goal_level := set_goal\<rparr>)))))
      else (Inr ACTIVE, nd, ctl))"

definition TimestepCue_set ::
  "env \<Rightarrow> nodedata \<Rightarrow> controller \<Rightarrow> (error + NodeStatus) \<times> nodedata \<times> controller" where
  "TimestepCue_set env nd ctl =
    read_constant ''SET_GOAL'' (nd, ctl) (\<lambda>set_goal.
      if ctl_goal_level ctl = set_goal then
        read_constant ''PHASE_END'' (nd, ctl) (\<lambda>phase_end.
          if ctl_phase ctl = phase_end then
            read_constant ''PHASE_END'' (nd, ctl) (\<lambda>phase_end.
              let nd1 = nd\<lparr>nd_phase := Some phase_end\<rparr> in
              case round_mean env (set_performance_list ctl) of
                Inl e \<Rightarrow> (Inl e, nd1, ctl)
              | Inr p \<Rightarrow>
                  (let nd2 = nd1\<lparr>nd_performance := Some p\<rparr> in
                   case mean env (set_score_list ctl) of
                     Inl e \<Rightarrow> (Inl e, nd2, ctl)
                   | Inr s \<Rightarrow>
                       (Inr SUCCESS,
                        nd2\<lparr>nd_score := Some s, nd_target := ctl_target ctl\<rparr>, ctl)))
          else
            read_constant ''PHASE_START'' (nd, ctl) (\<lambda>phase_start.
              (Inr SUCCESS,
               nd\<lparr>nd_phase := Some phase_start, nd_performance := ctl_performance ctl\<rparr>,
               ctl\<lparr>exercise_count := 0\<rparr>)))
      else (Inr ACTIVE, nd, ctl))"

definition TimestepCue_action ::
  "nodedata \<Rightarrow> controller \<Rightarrow> (error + NodeStatus) \<times> nodedata \<times> controller" where
  "TimestepCue_action nd ctl =
    read_constant ''ACTION_GOAL'' (nd, ctl) (\<lambda>action_goal.
      if ctl_goal_level ctl = action_goal then
        read_constant ''SET_GOAL'' (nd, ctl) (\<lambda>set_goal.
          let ctl1 = ctl\<lparr>ctl_goal_level := set_goal\<rparr> in
          read_constant ''PHASE_END'' (nd, ctl1) (\<lambda>phase_end.
            (Inr SUCCESS,
             nd\<lparr>nd_phase := Some phase_end, nd_performance := ctl_performance ctl1,
                nd_score := ctl_score ctl1, nd_target := ctl_target ctl1\<rparr>,
             ctl1)))
      else (Inr ACTIVE, nd, ctl))"

definition TimestepCue_default ::
  "env \<Rightarrow> nodedata \<Rightarrow> controller \<Rightarrow> (error + NodeStatus) \<times> nodedata \<times> controller" where
  "TimestepCue_default env nd ctl =
    read_constant ''GOOD'' (nd, ctl) (\<lambda>good.
      let nd1 = nd\<lparr>nd_performance := Some good\<rparr> in
      read_constant ''PHASE_START'' (nd1, ctl) (\<lambda>phase_start.
        (Inr SUCCESS,
         nd1\<lparr>nd_phase := Some phase_start,
             nd_target := Some (float_literal env (80 / 100)),
             nd_score := Some (float_literal env (79 / 100))\<rparr>,
         ctl)))"

text \<open>
  \<open>TimestepCue.run\<close> for a node configured with \<open>goal_level\<close>: the test for \<open>-1\<close> of
  line 648, then the \<open>elif\<close> chain of lines 674, 712, 737 and 760, each of which reads
  its constant before it compares.
\<close>

definition TimestepCue_run ::
  "env \<Rightarrow> int \<Rightarrow> nodedata \<Rightarrow> controller
     \<Rightarrow> (error + NodeStatus) \<times> nodedata \<times> controller" where
  "TimestepCue_run env goal_level nd ctl =
    (if goal_level = -1 then TimestepCue_person env nd ctl
     else
       read_constant ''SESSION_GOAL'' (nd, ctl) (\<lambda>session_goal.
         if goal_level = session_goal then TimestepCue_session env nd ctl
         else
           read_constant ''EXERCISE_GOAL'' (nd, ctl) (\<lambda>exercise_goal.
             if goal_level = exercise_goal then TimestepCue_exercise env nd ctl
             else
               read_constant ''SET_GOAL'' (nd, ctl) (\<lambda>set_goal.
                 if goal_level = set_goal then TimestepCue_set env nd ctl
                 else
                   read_constant ''ACTION_GOAL'' (nd, ctl) (\<lambda>action_goal.
                     if goal_level = action_goal then TimestepCue_action nd ctl
                     else TimestepCue_default env nd ctl)))))"

section \<open>\<open>EndSetEvent\<close>\<close>

text \<open>
  \<open>configure\<close> copies \<open>controller.exercise_count\<close> and computes
  \<open>firstTime = (controller.set_count == 0)\<close>; \<open>run\<close> follows in the same tick. The HTTP
  post to the robot is outside the model.
\<close>

definition EndSetEvent_run :: "controller \<Rightarrow> NodeStatus \<times> controller" where
  "EndSetEvent_run ctl =
    (let exercisecount = exercise_count ctl;
         firstTime = (set_count ctl = 0)
     in if (firstTime \<and> exercisecount \<ge> 10) \<or> (\<not> firstTime \<and> exercisecount \<ge> 5)
        then (SUCCESS,
              ctl\<lparr>expecting_action_goal := False, completed := COMPLETED_STATUS_TRUE,
                  set_count := set_count ctl + 1\<rparr>)
        else (FAIL, ctl))"

text \<open>Concrete blackboard and controller contents for the examples.\<close>

definition nodedata0 :: "nodedata" where
  "nodedata0 =
     \<lparr> nd_behaviour = None, nd_obs_behaviour = None, nd_observation = None,
       nd_new_goal = None, nd_phase = None, nd_performance = None,
       nd_score = None, nd_target = None, nd_sessions = None,
       nd_user_impairment = None, nd_name = None \<rparr>"

definition controller0 :: "controller" where
  "controller0 =
     \<lparr> used_behaviours = [], prev_behav = None, ctl_goal_level = 0, ctl_phase = 0,
       completed = COMPLETED_STATUS_FALSE, session_time = 0, set_count = 0,
       exercise_count = 0, ctl_performance = None, ctl_score = None, ctl_target = None,
       session_performance_list = [],
       set_performance_list = [], set_score_list = [],
       exercise_performance_list = [], exercise_score_list = [],
       expecting_action_goal = False, ctl_sessions = None, ctl_impairment = None,
       ctl_name = None \<rparr>"

section \<open>Properties of the policy wrapper\<close>

subsection \<open>The loop: exit, one pass, partial correctness, a sampler that never leaves\<close>

lemma while_valid:
  assumes h: "get_behaviour_while pol valid g b s c r = Some y"
  shows "fst y \<in> set valid"
proof (rule get_behaviour_while.raw_induct
    [where P = "\<lambda>pol valid g b s c r y. fst y \<in> set valid", OF _ h])
  fix f :: "'a policy \<Rightarrow> behaviour list \<Rightarrow> int \<Rightarrow> behaviour \<Rightarrow> int \<Rightarrow> int \<Rightarrow> 'a \<Rightarrow> (behaviour \<times> 'a) option"
  fix pol valid g b s c r y
  assume IH: "\<And>pol valid g b s c r y. f pol valid g b s c r = Some y \<Longrightarrow> fst y \<in> set valid"
  assume eq: "(if b \<in> set valid then Some (b, r)
      else case loop_body pol g b s c r of
           (b', s', c', r') \<Rightarrow> f pol valid g b' s' c' r') = Some y"
  show "fst y \<in> set valid"
  proof (cases "b \<in> set valid")
    case True
    with eq show ?thesis by auto
  next
    case False
    obtain b' s' c' r' where lb: "loop_body pol g b s c r = (b', s', c', r')"
      by (cases "loop_body pol g b s c r") auto
    from False lb eq have "f pol valid g b' s' c' r' = Some y" by simp
    then show ?thesis by (rule IH)
  qed
qed

lemma while_exit: "b \<in> set valid \<Longrightarrow> get_behaviour_while pol valid g b s c r = Some (b, r)"
  by (subst get_behaviour_while.simps) simp

lemma while_step: "b \<notin> set valid \<Longrightarrow> get_behaviour_while pol valid g b s c r =
   (case loop_body pol g b s c r of (b', s', c', r') \<Rightarrow> get_behaviour_while pol valid g b' s' c' r')"
  by (subst get_behaviour_while.simps) simp

lemma while_stuck_aux:
  assumes h: "get_behaviour_while pol valid g b s c r = Some y"
  shows "\<not> (b \<notin> set valid \<and> (\<forall>s c r. fst (loop_body pol g b s c r) = b))"
proof (rule get_behaviour_while.raw_induct
    [where P = "\<lambda>pol valid g b s c r y.
        \<not> (b \<notin> set valid \<and> (\<forall>s c r. fst (loop_body pol g b s c r) = b))", OF _ h])
  fix f :: "'a policy \<Rightarrow> behaviour list \<Rightarrow> int \<Rightarrow> behaviour \<Rightarrow> int \<Rightarrow> int \<Rightarrow> 'a \<Rightarrow> (behaviour \<times> 'a) option"
  fix pol valid g b s c r y
  assume IH: "\<And>pol valid g b s c r y. f pol valid g b s c r = Some y \<Longrightarrow>
     \<not> (b \<notin> set valid \<and> (\<forall>s c r. fst (loop_body pol g b s c r) = b))"
  assume eq: "(if b \<in> set valid then Some (b, r)
      else case loop_body pol g b s c r of
           (b', s', c', r') \<Rightarrow> f pol valid g b' s' c' r') = Some y"
  show "\<not> (b \<notin> set valid \<and> (\<forall>s c r. fst (loop_body pol g b s c r) = b))"
  proof
    assume a: "b \<notin> set valid \<and> (\<forall>s c r. fst (loop_body pol g b s c r) = b)"
    obtain b' s' c' r' where lb: "loop_body pol g b s c r = (b', s', c', r')"
      by (cases "loop_body pol g b s c r") auto
    from a lb have b': "b' = b" by (metis fst_conv)
    from a lb eq have "f pol valid g b' s' c' r' = Some y" by simp
    from IH[OF this] a b' show False by simp
  qed
qed

lemma while_stuck:
  "b \<notin> set valid \<Longrightarrow> (\<And>s c r. fst (loop_body pol g b s c r) = b) \<Longrightarrow>
    get_behaviour_while pol valid g b s c r = None"
  using while_stuck_aux[of pol valid g b s c r]
  by (cases "get_behaviour_while pol valid g b s c r") auto

lemma get_behaviour_Some:
  assumes "get_behaviour pol r state goal_level performance phase = Some (v, r')"
  shows "\<exists>b. v = Single b \<and> b \<in> set (get_valid_list goal_level performance phase)"
proof -
  obtain b0 r1 where s: "(if goal_level = PERSON_GOAL \<and> phase = PHASE_END then (A_END, r)
           else sample_action pol r state) = (b0, r1)"
    by (cases "(if goal_level = PERSON_GOAL \<and> phase = PHASE_END then (A_END, r)
           else sample_action pol r state)") auto
  from assms s obtain b where
    w: "get_behaviour_while pol (get_valid_list goal_level performance phase) goal_level b0 state 0 r1 = Some (b, r')"
    and v: "v = Single b"
    by (auto simp: get_behaviour_def Let_def split: option.splits)
  from while_valid[OF w] v show ?thesis by simp
qed

lemma silence_valid_at_action: "A_SILENCE \<in> set (get_valid_list ACTION_GOAL performance phase)"
  by (simp add: get_valid_list_def config_defs)

lemma preinstruction_invalid_after_start:
  "goal_level = SESSION_GOAL \<or> goal_level = EXERCISE_GOAL \<or> goal_level = SET_GOAL \<Longrightarrow>
   phase \<noteq> PHASE_START \<Longrightarrow>
   A_PREINSTRUCTION \<notin> set (get_valid_list goal_level performance phase)"
  by (auto simp add: get_valid_list_def config_defs)

lemma start_marker_never_valid: "A_START \<notin> set (get_valid_list goal_level performance phase)"
  by (simp add: get_valid_list_def)

lemma start_marker_stays:
  "goal_level \<noteq> ACTION_GOAL \<Longrightarrow>
   fst (loop_body (script_policy (\<lambda>n. A_START)) goal_level A_START state count r) = A_START"
  by (simp add: loop_body_def script_policy_def)

lemma loop_body_after_budget:
  assumes "goal_level \<noteq> ACTION_GOAL" "10 < count"
  shows "loop_body pol goal_level A_MANUALMANIPULATION_PRAISE state count r
           = (A_PRAISE, state, count + 1, r)"
    and "loop_body pol goal_level A_END state count r
           = (fst (sample_action pol (snd (sample_observation pol r state A_START))
                     (fst (sample_observation pol r state A_START))),
              fst (sample_observation pol r state A_START), 1,
              snd (sample_action pol (snd (sample_observation pol r state A_START))
                     (fst (sample_observation pol r state A_START))))"
  using assms by (simp_all add: loop_body_def split: prod.splits)

subsection \<open>Reading a constant of the class raises\<close>

lemma PolicyWrapper_constant_raises: "PolicyWrapper_constant name = Inl AttributeError"
  by (simp add: PolicyWrapper_constant_def PolicyWrapper_int_attributes_def)

lemma read_constant_raises: "read_constant name s k = (Inl AttributeError, s)"
  by (simp add: read_constant_def PolicyWrapper_constant_raises)

lemma goal_is_one_of_raises: "goal_is_one_of goal (name # names) = Inl AttributeError"
  by (simp add: PolicyWrapper_constant_raises)

subsection \<open>Claims about \<open>get_behaviour\<close>\<close>




text \<open>
  C2, as amended. At the Action goal, and at the Person goal in the End phase,
  \<open>get_behaviour\<close> returns for every sampler, and what it returns is in the whitelist:
  at the Action goal an invalid sample is replaced by Silence in one pass of the loop,
  at the Person goal in the End phase the End marker is returned without a pass. For
  every other goal level and phase, and every performance and state, the sampler that
  always answers with the Start marker, which no whitelist contains, keeps the loop
  running for ever: the source has no retry ceiling.
\<close>

theorem get_behaviour_termination:
  "(goal_level = ACTION_GOAL \<or> (goal_level = PERSON_GOAL \<and> phase = PHASE_END) \<longrightarrow>
      (\<exists>b r'. get_behaviour pol r state goal_level performance phase = Some (Single b, r')
           \<and> b \<in> set (get_valid_list goal_level performance phase)))
   \<and> (\<not> (goal_level = ACTION_GOAL \<or> (goal_level = PERSON_GOAL \<and> phase = PHASE_END)) \<longrightarrow>
        (\<forall>n. A_START \<notin> set (get_valid_list goal_level performance phase)
            \<and> fst (sample_action (script_policy (\<lambda>n. A_START)) n state) = A_START)
        \<and> get_behaviour (script_policy (\<lambda>n. A_START)) k state goal_level performance phase
            = None)"
proof (intro conjI impI)
  assume a: "goal_level = ACTION_GOAL \<or> (goal_level = PERSON_GOAL \<and> phase = PHASE_END)"
  then consider (action) "goal_level = ACTION_GOAL"
    | (person) "goal_level = PERSON_GOAL" "phase = PHASE_END" by blast
  then show "\<exists>b r'. get_behaviour pol r state goal_level performance phase = Some (Single b, r')
           \<and> b \<in> set (get_valid_list goal_level performance phase)"
  proof cases
    case action
    obtain b0 r1 where s: "sample_action pol r state = (b0, r1)"
      by (cases "sample_action pol r state") auto
    show ?thesis
    proof (cases "b0 \<in> set (get_valid_list ACTION_GOAL performance phase)")
      case True
      with s action show ?thesis
        by (simp add: get_behaviour_def while_exit config_defs)
    next
      case False
      have "get_behaviour_while pol (get_valid_list ACTION_GOAL performance phase) ACTION_GOAL b0 state 0 r1
            = Some (A_SILENCE, r1)"
        using False silence_valid_at_action[of performance phase]
        by (simp add: while_step loop_body_def while_exit)
      with s action silence_valid_at_action[of performance phase] show ?thesis
        by (simp add: get_behaviour_def config_defs)
    qed
  next
    case person
    then show ?thesis
      by (simp add: get_behaviour_def get_valid_list_def config_defs while_exit)
  qed
next
  assume "\<not> (goal_level = ACTION_GOAL \<or> (goal_level = PERSON_GOAL \<and> phase = PHASE_END))"
  show "\<forall>n. A_START \<notin> set (get_valid_list goal_level performance phase)
            \<and> fst (sample_action (script_policy (\<lambda>n. A_START)) n state) = A_START"
    by (simp add: start_marker_never_valid script_policy_def)
next
  assume a: "\<not> (goal_level = ACTION_GOAL \<or> (goal_level = PERSON_GOAL \<and> phase = PHASE_END))"
  then have g: "goal_level \<noteq> ACTION_GOAL" by simp
  have "get_behaviour_while (script_policy (\<lambda>n. A_START))
          (get_valid_list goal_level performance phase) goal_level A_START state 0 (Suc k) = None"
    by (rule while_stuck[OF start_marker_never_valid]) (rule start_marker_stays[OF g])
  with a show "get_behaviour (script_policy (\<lambda>n. A_START)) k state goal_level performance phase
            = None"
    by (auto simp: get_behaviour_def script_policy_def)
qed

theorem get_behaviour_termination_witness:
  "get_behaviour (script_policy (\<lambda>n. A_END)) 0 0 ACTION_GOAL (Some GOOD) PHASE_START
       = Some (Single A_SILENCE :: (behaviour, int) returned, Suc 0)
   \<and> A_SILENCE \<in> set (get_valid_list ACTION_GOAL (Some GOOD) PHASE_START)
   \<and> A_START \<notin> set (get_valid_list EXERCISE_GOAL (Some SLOW) PHASE_END)
   \<and> get_behaviour (script_policy (\<lambda>n. A_START)) 0 0 EXERCISE_GOAL (Some SLOW) PHASE_END
       = (None :: ((behaviour, int) returned \<times> nat) option)"
proof -
  have 1: "get_behaviour (script_policy (\<lambda>n. A_END)) 0 0 ACTION_GOAL (Some GOOD) PHASE_START
       = Some (Single A_SILENCE :: (behaviour, int) returned, Suc 0)"
    by (simp add: get_behaviour_def get_valid_list_def script_policy_def config_defs
        while_exit while_step loop_body_def)
  have 2: "\<not> (EXERCISE_GOAL = ACTION_GOAL \<or> (EXERCISE_GOAL = PERSON_GOAL \<and> PHASE_END = PHASE_END))"
    by (simp add: config_defs)
  note 3 = get_behaviour_termination[THEN conjunct2, THEN mp, OF 2, THEN conjunct2, of 0 0 "Some SLOW"]
  from 1 show ?thesis
    by (simp add: 3 silence_valid_at_action start_marker_never_valid)
qed

text \<open>
  A sampler that always answers Silence at the Session goal: the loop never exits.
\<close>

theorem get_behaviour_terminates_counterexample:
  "get_behaviour (script_policy (\<lambda>n. A_SILENCE)) 0 0 SESSION_GOAL (Some GOOD) PHASE_START
     = (None :: ((behaviour, int) returned \<times> nat) option)"
  by (simp add: get_behaviour_def get_valid_list_def script_policy_def config_defs
      while_stuck loop_body_def)

text \<open>
  C3. At a goal level other than Action an invalid behaviour is resampled while the retry
  counter is within its budget, and only then handed to the lookup table or to the
  observation step. The comment on the budget test says ten tries; the test is
  \<open>count <= 10\<close> with \<open>count\<close> starting at 0, so the first round resamples eleven
  times. With \<open>late_valid_script\<close> the eleventh resample (the twelfth draw) is taken and
  its Pre-Instruction is returned; a budget of ten resamples would have ended with the
  compound mapped to Questioning after eleven draws.
\<close>

theorem eleventh_resample_taken:
  "get_behaviour (script_policy late_valid_script) 0 0 SESSION_GOAL (Some GOOD) PHASE_START
     = Some (Single A_PREINSTRUCTION :: (behaviour, int) returned, 12)"
  by (simp add: get_behaviour_def get_valid_list_def script_policy_def config_defs
      while_exit while_step loop_body_def late_valid_script_def)

text \<open>
  C4, as amended. For every state, goal level, performance and phase, whenever
  \<open>get_behaviour\<close> returns, it returns the finally valid behaviour alone: a single value
  from the whitelist, and no pair of a behaviour with a next state.
\<close>

theorem get_behaviour_returns_behaviour_alone:
  assumes "get_behaviour pol r state goal_level performance phase = Some (v, r')"
  shows "(\<exists>b. v = Single b \<and> b \<in> set (get_valid_list goal_level performance phase))
     \<and> (\<forall>b next_state. v \<noteq> Tuple2 b next_state)"
  using get_behaviour_Some[OF assms] by auto

theorem get_behaviour_returns_behaviour_alone_witness:
  "get_behaviour (script_policy (\<lambda>n. A_PRAISE)) 0 7 SET_GOAL (Some GOOD) PHASE_END
      = Some (Single A_PRAISE :: (behaviour, int) returned, Suc 0)
   \<and> A_PRAISE \<in> set (get_valid_list SET_GOAL (Some GOOD) PHASE_END)
   \<and> (Single A_PRAISE :: (behaviour, int) returned)
        \<noteq> Tuple2 A_PRAISE (fst (sample_observation (script_policy (\<lambda>n. A_PRAISE)) (Suc 0) 7 A_PRAISE))"
proof -
  have h: "get_behaviour (script_policy (\<lambda>n. A_PRAISE)) 0 7 SET_GOAL (Some GOOD) PHASE_END
      = Some (Single A_PRAISE :: (behaviour, int) returned, Suc 0)"
    by (simp add: get_behaviour_def get_valid_list_def script_policy_def config_defs while_exit)
  from get_behaviour_returns_behaviour_alone[OF h] h
  show ?thesis by simp
qed

text \<open>
  At the Person goal in the End phase the value returned is the End marker alone, which is
  no pair of the behaviour and the next state; the two-target assignment in
  \<open>GetBehaviour.run\<close> raises on it.
\<close>

theorem get_behaviour_returns_pair_counterexample:
  "get_behaviour (script_policy (\<lambda>n. A_PRAISE)) 0 7 PERSON_GOAL None PHASE_END
      = Some (Single A_END :: (behaviour, int) returned, 0)
   \<and> (Single A_END :: (behaviour, int) returned)
        \<noteq> Tuple2 A_END (fst (sample_observation (script_policy (\<lambda>n. A_PRAISE)) 0 7 A_END))
   \<and> GetBehaviour_run (script_policy (\<lambda>n. A_PRAISE)) 0 7 PERSON_GOAL None PHASE_END
        nodedata0 controller0
      = Some (Inl TypeError, nodedata0, controller0, 0)"
  by (simp add: get_behaviour_def get_valid_list_def config_defs while_exit
      GetBehaviour_run_def unpack2_def)

text \<open>
  C5. For every state and performance, \<open>get_behaviour\<close> at the Person goal in the End
  phase returns the End marker; the sampler is not consulted (the randomness comes back
  untouched), whatever the policy is.
\<close>

theorem person_end_bypass:
  "get_behaviour pol r state PERSON_GOAL performance PHASE_END = Some (Single A_END, r)"
  by (simp add: get_behaviour_def get_valid_list_def config_defs while_exit)

section \<open>Properties of the decision step driver\<close>

lemma GetBehaviour_run_raises:
  assumes "get_behaviour pol r state goal_level performance phase
             = Some (v :: (behaviour, behaviour) returned, r')"
  shows "GetBehaviour_run pol r state goal_level performance phase nd ctl
     = Some (Inl TypeError, nd, ctl, r')"
  using get_behaviour_Some[OF assms] assms
  by (auto simp: GetBehaviour_run_def unpack2_def)

lemma CheckForBehaviour_preinstruction:
  "CheckForBehaviour_run A_PREINSTRUCTION A_PREINSTRUCTION ctl
     = (SUCCESS, ctl\<lparr>used_behaviours := []\<rparr>)"
  by (simp add: CheckForBehaviour_run_def is_example_of_behaviour_def)

text \<open>
  C8. The repetition rule is to replace a behaviour that is already in \<open>used_behaviours\<close>
  at the Session, Exercise or Set goal by Pre-Instruction, and to append it otherwise.
  \<open>GetBehaviour.run\<close> does not get there. At the Session goal, with Questioning used
  before and selected again, the two-target assignment of line 124 raises \<open>TypeError\<close>:
  the blackboard holds no behaviour, Pre-Instruction is not deposited and
  \<open>used_behaviours\<close> is unchanged. With Questioning not used before, the node raises in
  the same way and appends nothing.
\<close>

theorem repetition_never_suppressed:
  "GetBehaviour_run (script_policy (\<lambda>n. A_QUESTIONING)) 0 0 SESSION_GOAL (Some GOOD) PHASE_START
      nodedata0 (controller0\<lparr>used_behaviours := [A_QUESTIONING]\<rparr>)
     = Some (Inl TypeError, nodedata0, controller0\<lparr>used_behaviours := [A_QUESTIONING]\<rparr>, Suc 0)
   \<and> GetBehaviour_run (script_policy (\<lambda>n. A_QUESTIONING)) 0 0 SESSION_GOAL (Some GOOD) PHASE_START
      nodedata0 controller0
     = Some (Inl TypeError, nodedata0, controller0, Suc 0)"
  by (simp add: get_behaviour_def get_valid_list_def script_policy_def config_defs while_exit
      GetBehaviour_run_def unpack2_def)

section \<open>Properties of the goal transitions\<close>

text \<open>
  C6. By its docstring \<open>CreateSubgoal.run\<close> succeeds with the next level below the
  Action goal and fails at the Action goal. Its first statement reads
  \<open>PolicyWrapper.ACTION_GOAL\<close>, which the class does not define: at every goal level the
  node raises \<open>AttributeError\<close>, returns no status and sets no new goal.
\<close>

theorem CreateSubgoal_raises:
  "CreateSubgoal_run previous_goal_level nd = (Inl AttributeError, nd)"
  by (simp add: CreateSubgoal_run_def read_constant_raises)

text \<open>
  C7, as amended. \<open>EndSubgoal.run\<close> returns FAIL exactly when the goal level is above 4
  (the Action goal), and then it leaves the blackboard and the controller as they were.
\<close>

theorem EndSubgoal_fails_above_action:
  "(fst (EndSubgoal_run goal_level nd ctl) = Inr FAIL \<longleftrightarrow> goal_level > 4)
   \<and> (goal_level > 4 \<longrightarrow> EndSubgoal_run goal_level nd ctl = (Inr FAIL, nd, ctl))"
  by (simp add: EndSubgoal_run_def read_constant_raises)

theorem EndSubgoal_fails_above_action_witness:
  "EndSubgoal_run 5 nodedata0 controller0 = (Inr FAIL, nodedata0, controller0)
   \<and> fst (EndSubgoal_run ACTION_GOAL nodedata0 controller0) \<noteq> Inr FAIL"
  using EndSubgoal_fails_above_action[of 5 nodedata0 controller0]
    EndSubgoal_fails_above_action[of ACTION_GOAL nodedata0 controller0]
  by (simp add: config_defs)

text \<open>
  At the Session goal, inside the range where a success is expected, the node returns no
  status and changes nothing; at the Exercise goal, outside that range, it does not
  return FAIL.
\<close>

theorem EndSubgoal_levels_counterexample:
  "EndSubgoal_run SESSION_GOAL nodedata0 controller0
      = (Inl AttributeError, nodedata0, controller0)
   \<and> fst (EndSubgoal_run EXERCISE_GOAL nodedata0 controller0) \<noteq> Inr FAIL
   \<and> \<not> EXERCISE_GOAL \<le> SESSION_GOAL"
  by (simp add: EndSubgoal_run_def read_constant_raises config_defs)

section \<open>Properties of \<open>TimestepCue.run\<close>\<close>

text \<open>
  C9. The End-phase branches for the Exercise and the Set goal are written to report
  \<open>round(mean(...))\<close> of the level's performance list and \<open>mean(...)\<close> of its score list.
  No node reaches them: whatever goal level the node is configured with, whatever the
  lists hold and whatever the library computes, \<open>TimestepCue.run\<close> raises
  \<open>AttributeError\<close> at its first read of a constant of the class (line 649 or line 674),
  returns no status and writes neither performance nor score.
\<close>

theorem TimestepCue_run_raises:
  "TimestepCue_run env goal_level nd ctl = (Inl AttributeError, nd, ctl)"
  by (simp add: TimestepCue_run_def TimestepCue_person_def read_constant_raises)

section \<open>Properties of \<open>EndSetEvent\<close>\<close>

text \<open>
  C10. \<open>EndSetEvent\<close> succeeds exactly when the repetition count has reached the
  threshold of the set, 10 when \<open>set_count == 0\<close> and 5 otherwise, and fails below it:
  on the first set it succeeds at 10 and fails at 9, on a later set it succeeds at 5 and
  fails at 4.
\<close>

theorem EndSetEvent_threshold:
  "(fst (EndSetEvent_run ctl) = SUCCESS
      \<longleftrightarrow> exercise_count ctl \<ge> (if set_count ctl = 0 then 10 else 5))
   \<and> (fst (EndSetEvent_run ctl) = FAIL
      \<longleftrightarrow> exercise_count ctl < (if set_count ctl = 0 then 10 else 5))
   \<and> (set_count ctl = 0 \<and> exercise_count ctl = 10 \<longrightarrow> fst (EndSetEvent_run ctl) = SUCCESS)
   \<and> (set_count ctl = 0 \<and> exercise_count ctl = 9 \<longrightarrow> fst (EndSetEvent_run ctl) = FAIL)
   \<and> (set_count ctl \<noteq> 0 \<and> exercise_count ctl = 5 \<longrightarrow> fst (EndSetEvent_run ctl) = SUCCESS)
   \<and> (set_count ctl \<noteq> 0 \<and> exercise_count ctl = 4 \<longrightarrow> fst (EndSetEvent_run ctl) = FAIL)"
  by (auto simp: EndSetEvent_run_def Let_def)

theorem EndSetEvent_threshold_witness:
  "fst (EndSetEvent_run (controller0\<lparr>set_count := 0, exercise_count := 10\<rparr>)) = SUCCESS
   \<and> fst (EndSetEvent_run (controller0\<lparr>set_count := 0, exercise_count := 9\<rparr>)) = FAIL
   \<and> fst (EndSetEvent_run (controller0\<lparr>set_count := 1, exercise_count := 5\<rparr>)) = SUCCESS
   \<and> fst (EndSetEvent_run (controller0\<lparr>set_count := 1, exercise_count := 4\<rparr>)) = FAIL"
  using EndSetEvent_threshold[of "controller0\<lparr>set_count := 0, exercise_count := 10\<rparr>"]
    EndSetEvent_threshold[of "controller0\<lparr>set_count := 0, exercise_count := 9\<rparr>"]
    EndSetEvent_threshold[of "controller0\<lparr>set_count := 1, exercise_count := 5\<rparr>"]
    EndSetEvent_threshold[of "controller0\<lparr>set_count := 1, exercise_count := 4\<rparr>"]
  by simp

end
